theory Spec2Isabelle
  imports Complex_Main
begin

section \<open>JavaScript values\<close>

text \<open>
  The mock server of \<^verbatim>\<open>server.js\<close> and \<^verbatim>\<open>responseGenerator.js\<close> moves JSON
  payloads around (request bodies, contract examples, override bodies) and tests them with
  JavaScript truthiness. A payload is a \<open>jsval\<close>: \<open>Undefined\<close> is the value of a
  missing property, \<open>JNaN\<close> the number that \<^verbatim>\<open>parseInt\<close>
  returns when it finds no digit. A number is a real (JSON numbers such as \<^verbatim>\<open>1000.50\<close>);
  the server only copies numbers and tests them against zero. An object is the list of its own
  members in property order.
\<close>

datatype jsval =
    Undefined
  | Null
  | JBool bool
  | JNum real
  | JNaN
  | JStr string
  | JArr "jsval list"
  | JObj "(string \<times> jsval) list"

text \<open>\<^verbatim>\<open>if (v)\<close>: the falsy values are undefined, null, false, 0, NaN and the empty string.\<close>

fun truthy :: "jsval \<Rightarrow> bool" where
  "truthy Undefined = False"
| "truthy Null = False"
| "truthy (JBool b) = b"
| "truthy (JNum x) = (x \<noteq> 0)"
| "truthy JNaN = False"
| "truthy (JStr s) = (s \<noteq> [])"
| "truthy (JArr xs) = True"
| "truthy (JObj kvs) = True"

subsection \<open>Strings\<close>

text \<open>\<^verbatim>\<open>method.toUpperCase()\<close> and \<^verbatim>\<open>method.toLowerCase()\<close>, on the ASCII letters.\<close>

definition upper_char :: "char \<Rightarrow> char" where
  "upper_char c =
     (case map_of (zip ''abcdefghijklmnopqrstuvwxyz'' ''ABCDEFGHIJKLMNOPQRSTUVWXYZ'') c of
        Some u \<Rightarrow> u
      | None \<Rightarrow> c)"

definition lower_char :: "char \<Rightarrow> char" where
  "lower_char c =
     (case map_of (zip ''ABCDEFGHIJKLMNOPQRSTUVWXYZ'' ''abcdefghijklmnopqrstuvwxyz'') c of
        Some l \<Rightarrow> l
      | None \<Rightarrow> c)"

definition toUpperCase :: "string \<Rightarrow> string" where
  "toUpperCase s = map upper_char s"

definition toLowerCase :: "string \<Rightarrow> string" where
  "toLowerCase s = map lower_char s"

text \<open>
  \<^verbatim>\<open>parseInt(status)\<close> with no radix: leading white space is skipped, a sign is read, a
  prefix \<^verbatim>\<open>0x\<close> selects radix 16, and the longest prefix of digits is the value; no digit
  gives NaN. The value is exact here (JavaScript rounds beyond \<open>2^53\<close>).
\<close>

definition is_space :: "char \<Rightarrow> bool" where
  "is_space c = ((of_char c :: nat) \<in> {9, 10, 11, 12, 13, 32})"

definition digit_of :: "nat \<Rightarrow> char \<Rightarrow> nat option" where
  "digit_of radix c =
     (let n = (of_char c :: nat);
          d = (if 48 \<le> n \<and> n \<le> 57 then Some (n - 48)
               else if 97 \<le> n \<and> n \<le> 122 then Some (n - 87)
               else if 65 \<le> n \<and> n \<le> 90 then Some (n - 55)
               else None)
      in case d of None \<Rightarrow> None | Some v \<Rightarrow> if v < radix then Some v else None)"

fun digits_value :: "nat \<Rightarrow> nat \<Rightarrow> char list \<Rightarrow> nat" where
  "digits_value radix acc [] = acc"
| "digits_value radix acc (c # cs) =
     (case digit_of radix c of
        None \<Rightarrow> acc
      | Some v \<Rightarrow> digits_value radix (acc * radix + v) cs)"

definition parse_digits :: "nat \<Rightarrow> char list \<Rightarrow> int option" where
  "parse_digits radix s =
     (case s of
        [] \<Rightarrow> None
      | c # cs \<Rightarrow> (case digit_of radix c of
                     None \<Rightarrow> None
                   | Some v \<Rightarrow> Some (int (digits_value radix 0 s))))"

definition parseInt :: "string \<Rightarrow> jsval" where
  "parseInt str =
     (let s = dropWhile is_space str;
          neg = (case s of c # cs \<Rightarrow> c = CHR ''-'' | [] \<Rightarrow> False);
          s1 = (case s of c # cs \<Rightarrow> if c = CHR ''-'' \<or> c = CHR ''+'' then cs else s | [] \<Rightarrow> s);
          hex = (take 2 s1 = ''0x'' \<or> take 2 s1 = ''0X'');
          r = (if hex then parse_digits 16 (drop 2 s1) else parse_digits 10 s1)
      in case r of
           None \<Rightarrow> JNaN
         | Some v \<Rightarrow> JNum (real_of_int (if neg then - v else v)))"

section \<open>The contract, the override table and the request\<close>

text \<open>
  \<^verbatim>\<open>startServer\<close> works on a contract that \<^verbatim>\<open>SwaggerParser.validate\<close> has accepted, so
  an operation has the shape of an OpenAPI operation object: \<^verbatim>\<open>responses\<close> maps a status
  key to a response object, whose optional \<^verbatim>\<open>content\<close> maps a media type to an object
  with an optional \<^verbatim>\<open>example\<close> and an optional \<^verbatim>\<open>schema\<close> (\<open>Undefined\<close> when the
  member is missing). The two extensions are objects as the source documents them:
  \<^verbatim>\<open>x-mock-store: {referenceField}\<close> and \<^verbatim>\<open>x-mock-retrieve: {param}\<close>, each member a
  string or missing.
\<close>

record media =
  example :: jsval
  schema :: jsval

record response_def =
  content :: "(string \<times> media) list option"

record store_annotation =
  referenceField :: "string option"

record retrieve_annotation =
  param :: "string option"

record operation =
  responses :: "(string \<times> response_def) list option"
  x_mock_store :: "store_annotation option"
  x_mock_retrieve :: "retrieve_annotation option"

text \<open>A response, and an entry of the static override file: \<^verbatim>\<open>{status, body}\<close>.\<close>

record response =
  status :: jsval
  body :: jsval

text \<open>
  \<^verbatim>\<open>staticResponses\<close>: the parsed override file, path to upper-case method to entry; the
  empty object when no file is given.
\<close>

type_synonym static_table = "(string \<times> (string \<times> response) list) list"

text \<open>
  \<^verbatim>\<open>app.use(express.json())\<close> runs before every route (Express 4, strict mode), so the
  \<^verbatim>\<open>req.body\<close> that a handler reads is an object or an array: the parsed JSON body, or
  the empty object when the request has no JSON body.
\<close>

datatype json_body = BodyObj "(string \<times> jsval) list" | BodyArr "jsval list"

fun body_value :: "json_body \<Rightarrow> jsval" where
  "body_value (BodyObj kvs) = JObj kvs"
| "body_value (BodyArr xs) = JArr xs"

text \<open>
  What the handler reads of the request: the header \<^verbatim>\<open>x-mock-response\<close>, the path
  parameters that the router extracted (\<^verbatim>\<open>req.params\<close>) and the parsed body
  (\<^verbatim>\<open>req.body\<close>).
\<close>

record request =
  x_mock_response :: "string option"
  params :: "(string \<times> string) list"
  req_body :: json_body

text \<open>\<^verbatim>\<open>const dataStore = new Map()\<close>: references to stored request bodies.\<close>

type_synonym data_store = "string \<rightharpoonup> jsval"

definition empty_store :: data_store where
  "empty_store = Map.empty"

text \<open>\<^verbatim>\<open>dataStore.get(reference)\<close>: the stored value, undefined for an unknown key.\<close>

definition dataStore_get :: "data_store \<Rightarrow> jsval \<Rightarrow> jsval" where
  "dataStore_get dataStore reference =
     (case reference of
        JStr k \<Rightarrow> (case dataStore k of None \<Rightarrow> Undefined | Some v \<Rightarrow> v)
      | _ \<Rightarrow> Undefined)"

text \<open>
  \<^verbatim>\<open>req.params[param]\<close>: the path parameter of that name, a string, or undefined. A
  missing \<^verbatim>\<open>param\<close> member is the key \<^verbatim>\<open>"undefined"\<close>.
\<close>

definition params_get :: "(string \<times> string) list \<Rightarrow> string option \<Rightarrow> jsval" where
  "params_get ps p =
     (case map_of ps (case p of None \<Rightarrow> ''undefined'' | Some k \<Rightarrow> k) of
        None \<Rightarrow> Undefined
      | Some v \<Rightarrow> JStr v)"



fun obj_set :: "string \<Rightarrow> jsval \<Rightarrow> (string \<times> jsval) list \<Rightarrow> (string \<times> jsval) list" where
  "obj_set k v [] = [(k, v)]"
| "obj_set k v ((k', v') # kvs) =
     (if k' = k then (k, v) # kvs else (k', v') # obj_set k v kvs)"

fun set_reference :: "jsval \<Rightarrow> string \<Rightarrow> string \<Rightarrow> jsval" where
  "set_reference (JObj kvs) k r = JObj (obj_set k (JStr r) kvs)"
| "set_reference b k r = b"

section \<open>responseGenerator.js\<close>

text \<open>
  \<^verbatim>\<open>staticResponses[path]?.[method.toUpperCase()]\<close>: an entry is an object, hence truthy
  when it is there.
\<close>

definition static_lookup :: "static_table \<Rightarrow> string \<Rightarrow> string \<Rightarrow> response option" where
  "static_lookup staticResponses path m =
     (case map_of staticResponses path of
        None \<Rightarrow> None
      | Some methods \<Rightarrow> map_of methods m)"

text \<open>
  \<^verbatim>\<open>requestedStatus in responses\<close> is true for a member of the object and also for a name
  that every object inherits from \<^verbatim>\<open>Object.prototype\<close>. For an inherited name
  \<^verbatim>\<open>responses[status]\<close> is a built-in function or the prototype itself: truthy, with no
  \<^verbatim>\<open>content\<close>.
\<close>

definition object_prototype_names :: "string list" where
  "object_prototype_names =
     [''constructor'', ''hasOwnProperty'', ''isPrototypeOf'', ''propertyIsEnumerable'',
      ''toLocaleString'', ''toString'', ''valueOf'', ''__proto__'', ''__defineGetter__'',
      ''__defineSetter__'', ''__lookupGetter__'', ''__lookupSetter__'']"

definition js_in :: "string \<Rightarrow> (string \<times> response_def) list \<Rightarrow> bool" where
  "js_in k rs = (k \<in> set (map fst rs) \<or> k \<in> set object_prototype_names)"

definition responses_get :: "(string \<times> response_def) list \<Rightarrow> string \<Rightarrow> response_def option" where
  "responses_get rs k =
     (case map_of rs k of
        Some d \<Rightarrow> Some d
      | None \<Rightarrow> if k \<in> set object_prototype_names then Some \<lparr>content = None\<rparr> else None)"

text \<open>
  \<^verbatim>\<open>generateResponse({ path, method, operation, staticResponses, requestedStatus })\<close>.
  \<open>jsf\<close> stands for \<^verbatim>\<open>jsf.resolve\<close> of json-schema-faker: the value it generates for
  a schema.
\<close>

definition generateResponse ::
  "(jsval \<Rightarrow> jsval) \<Rightarrow> string \<Rightarrow> string \<Rightarrow> operation \<Rightarrow> static_table \<Rightarrow> string \<Rightarrow> response" where
  "generateResponse jsf path method operation staticResponses requestedStatus =
     (case static_lookup staticResponses path (toUpperCase method) of
        Some staticResp \<Rightarrow> \<lparr>status = status staticResp, body = body staticResp\<rparr>
      | None \<Rightarrow>
          (let rs = (case responses operation of None \<Rightarrow> [] | Some r \<Rightarrow> r);
               st = (if js_in requestedStatus rs then requestedStatus else ''200'')
           in case responses_get rs st of
                None \<Rightarrow>
                  \<lparr>status = JNum 500,
                   body = JObj [(''error'', JStr (''No response defined for status '' @ st))]\<rparr>
              | Some responseDef \<Rightarrow>
                  (let c = (case content responseDef of
                              None \<Rightarrow> None
                            | Some ms \<Rightarrow> map_of ms ''application/json'');
                       ex = (case c of None \<Rightarrow> Undefined | Some m \<Rightarrow> example m);
                       sc = (case c of None \<Rightarrow> Undefined | Some m \<Rightarrow> schema m)
                   in if truthy ex then \<lparr>status = parseInt st, body = ex\<rparr>
                      else if truthy sc then \<lparr>status = parseInt st, body = jsf sc\<rparr>
                      else \<lparr>status = parseInt st, body = JObj []\<rparr>)))"

section \<open>server.js: the handler of one operation\<close>

text \<open>
  The closure \<^verbatim>\<open>handler\<close> that \<^verbatim>\<open>startServer\<close> builds for \<open>path\<close>,
  \<open>method\<close> and \<open>operation\<close>. \<open>uuid\<close> is the value that \<^verbatim>\<open>uuidv4()\<close>
  returns if this call reaches it. The result is what \<^verbatim>\<open>res.status(...).json(...)\<close>
  sends and the data store after the call; the calls of the logger are left out.

  The assignment to \<^verbatim>\<open>response.body[referenceField]\<close> changes the body in place, and
  the body of an override or an example is the object that the override table or the contract
  holds. The table and the contract are arguments of the call: they stand for these objects as
  they are when the call starts.
\<close>

definition not_found :: jsval where
  "not_found = JObj [(''error'', JStr ''Not found'')]"

definition handler ::
  "(jsval \<Rightarrow> jsval) \<Rightarrow> string \<Rightarrow> string \<Rightarrow> operation \<Rightarrow> static_table \<Rightarrow> string \<Rightarrow>
   request \<Rightarrow> data_store \<Rightarrow> response \<times> data_store" where
  "handler jsf path method operation staticResponses uuid req dataStore =
     (let requestedStatus =
            (case x_mock_response req of
               None \<Rightarrow> ''200''
             | Some h \<Rightarrow> if h = [] then ''200'' else h)
      in case x_mock_retrieve operation of
           Some retrieve \<Rightarrow>
             (let reference = params_get (params req) (param retrieve);
                  dat = dataStore_get dataStore reference
              in if truthy dat then (\<lparr>status = JNum 200, body = dat\<rparr>, dataStore)
                 else (\<lparr>status = JNum 404, body = not_found\<rparr>, dataStore))
         | None \<Rightarrow>
             (let response =
                    generateResponse jsf path method operation staticResponses requestedStatus
              in case x_mock_store operation of
                   None \<Rightarrow> (response, dataStore)
                 | Some store \<Rightarrow>
                     (let dataStore' = dataStore(uuid \<mapsto> body_value (req_body req))
                      in case referenceField store of
                           None \<Rightarrow> (response, dataStore')
                         | Some f \<Rightarrow>
                             if truthy (body response) \<and> f \<noteq> []
                             then (response\<lparr>body := set_reference (body response) f uuid\<rparr>,
                                   dataStore')
                             else (response, dataStore'))))"







section \<open>server.js: the body parser in front of the handlers\<close>






section \<open>server.js: the routes\<close>

text \<open>
  \<^verbatim>\<open>path.replace(/\{([^}]+)\}/g, ':$1')\<close>: each brace group with a non-empty name
  becomes a colon and the name.
\<close>

function express_path :: "string \<Rightarrow> string" where
  "express_path [] = []"
| "express_path (c # cs) =
     (if c = CHR ''{'' \<and> takeWhile (\<lambda>x. x \<noteq> CHR ''}'') cs \<noteq> []
         \<and> dropWhile (\<lambda>x. x \<noteq> CHR ''}'') cs \<noteq> []
      then CHR '':'' # takeWhile (\<lambda>x. x \<noteq> CHR ''}'') cs
             @ express_path (tl (dropWhile (\<lambda>x. x \<noteq> CHR ''}'') cs))
      else c # express_path cs)"
  by pat_completeness auto
termination
proof (relation "measure length")
  show "wf (measure length)" by simp
next
  fix c :: char and cs :: string
  have "length (dropWhile (\<lambda>x. x \<noteq> CHR ''}'') cs) \<le> length cs"
    by (rule length_dropWhile_le)
  then have "length (tl (dropWhile (\<lambda>x. x \<noteq> CHR ''}'') cs)) \<le> length cs"
    by simp
  then show "(tl (dropWhile (\<lambda>x. x \<noteq> CHR ''}'') cs), c # cs) \<in> measure length"
    by simp
next
  fix c :: char and cs :: string
  show "(cs, c # cs) \<in> measure length" by simp
qed

text \<open>
  A registered route: the routing function \<^verbatim>\<open>app[method.toLowerCase()]\<close> it was
  registered with, the route string, and the variables \<open>path\<close>, \<open>method\<close> and
  \<open>operation\<close> that its handler captured.
\<close>

record route =
  route_verb :: string
  route_path :: string
  handler_path :: string
  handler_method :: string
  handler_operation :: operation

text \<open>
  The keys of a path item for which \<^verbatim>\<open>app[key]\<close> is a routing function of the Express
  application. For any other key of a validated path item (\<^verbatim>\<open>parameters\<close>,
  \<^verbatim>\<open>summary\<close>, \<^verbatim>\<open>description\<close>, \<^verbatim>\<open>servers\<close>) \<^verbatim>\<open>app[key]\<close> is undefined
  and calling it throws a TypeError, which ends \<^verbatim>\<open>startServer\<close>.
\<close>

definition app_routing_methods :: "string list" where
  "app_routing_methods =
     [''get'', ''put'', ''post'', ''delete'', ''options'', ''head'', ''patch'', ''trace'']"

datatype startup_error = TypeError string

text \<open>
  The two nested \<^verbatim>\<open>forEach\<close> loops over \<^verbatim>\<open>Object.entries(spec.paths)\<close> and
  \<^verbatim>\<open>Object.entries(methods)\<close>; \<open>app\<close> is the list of the routes registered so far.
\<close>

fun register_methods ::
  "string \<Rightarrow> (string \<times> operation) list \<Rightarrow> route list \<Rightarrow> startup_error + route list" where
  "register_methods path [] app = Inr app"
| "register_methods path ((method, operation) # ms) app =
     (if toLowerCase method \<in> set app_routing_methods
      then register_methods path ms
             (app @ [\<lparr>route_verb = toLowerCase method, route_path = express_path path,
                      handler_path = path, handler_method = method,
                      handler_operation = operation\<rparr>])
      else Inl (TypeError (toLowerCase method)))"

fun register_paths ::
  "(string \<times> (string \<times> operation) list) list \<Rightarrow> route list \<Rightarrow> startup_error + route list" where
  "register_paths [] app = Inr app"
| "register_paths ((path, methods) # ps) app =
     (case register_methods path methods app of
        Inl e \<Rightarrow> Inl e
      | Inr app' \<Rightarrow> register_paths ps app')"

definition build_routes ::
  "(string \<times> (string \<times> operation) list) list \<Rightarrow> startup_error + route list" where
  "build_routes paths = register_paths paths []"

text \<open>
  The route that one entry of a path item is registered as, the routes of a contract in the
  order of its entries, and the contracts all of whose path-item keys name a routing function.
\<close>

definition route_of :: "string \<Rightarrow> string \<times> operation \<Rightarrow> route" where
  "route_of path entry =
     \<lparr>route_verb = toLowerCase (fst entry), route_path = express_path path,
      handler_path = path, handler_method = fst entry, handler_operation = snd entry\<rparr>"

definition routes_of :: "(string \<times> (string \<times> operation) list) list \<Rightarrow> route list" where
  "routes_of paths = concat (map (\<lambda>item. map (route_of (fst item)) (snd item)) paths)"

definition routable :: "(string \<times> (string \<times> operation) list) list \<Rightarrow> bool" where
  "routable paths =
     list_all (\<lambda>item. list_all (\<lambda>entry. toLowerCase (fst entry) \<in> set app_routing_methods)
                 (snd item)) paths"

text \<open>
  The Express router tries the routes in the order of their registration and runs the handler
  of the first one whose routing function is the request's method and whose route string
  matches the request path. \<open>matches\<close> is the router's test of a route string against a
  path.
\<close>

definition dispatch ::
  "(string \<Rightarrow> string \<Rightarrow> bool) \<Rightarrow> route list \<Rightarrow> string \<Rightarrow> string \<Rightarrow> route option" where
  "dispatch matches app m p =
     find (\<lambda>r. route_verb r = toLowerCase m \<and> matches (route_path r) p) app"

text \<open>
  A model of the router's test for route strings made of literal segments and
  \<^verbatim>\<open>:name\<close> segments: a \<^verbatim>\<open>:name\<close> segment matches any non-empty path segment, a
  literal segment matches itself (Express also ignores letter case and a trailing slash).
  It instantiates \<open>matches\<close> in the concrete requests below.
\<close>

fun split_slash :: "string \<Rightarrow> string list" where
  "split_slash [] = [[]]"
| "split_slash (c # cs) =
     (if c = CHR ''/'' then [] # split_slash cs
      else (case split_slash cs of
              seg # segs \<Rightarrow> (c # seg) # segs
            | [] \<Rightarrow> [[c]]))"

definition segment_matches :: "string \<Rightarrow> string \<Rightarrow> bool" where
  "segment_matches pat seg =
     (case pat of
        c # name \<Rightarrow> if c = CHR '':'' \<and> name \<noteq> [] then seg \<noteq> [] else pat = seg
      | [] \<Rightarrow> seg = [])"

definition route_matches :: "string \<Rightarrow> string \<Rightarrow> bool" where
  "route_matches pat p = list_all2 segment_matches (split_slash pat) (split_slash p)"

section \<open>The payments contract of the documentation\<close>

text \<open>
  The contract that the documentation of the linkage feature gives (\<^verbatim>\<open>POST /payments\<close>
  with \<^verbatim>\<open>x-mock-store\<close>, \<^verbatim>\<open>GET /payments/{reference}\<close> with
  \<^verbatim>\<open>x-mock-retrieve\<close>), with the payment of its example request. \<open>sample_jsf\<close> is a
  generator for the concrete runs: it yields the same object for every schema.
\<close>

definition sample_jsf :: "jsval \<Rightarrow> jsval" where
  "sample_jsf sc = JObj [(''generated'', JBool True)]"

definition payment_schema :: jsval where
  "payment_schema = JObj [(''type'', JStr ''object'')]"

definition payments_post :: operation where
  "payments_post =
     \<lparr>responses = Some [(''201'', \<lparr>content = Some [(''application/json'',
                          \<lparr>example = Undefined, schema = payment_schema\<rparr>)]\<rparr>)],
      x_mock_store = Some \<lparr>referenceField = Some ''reference''\<rparr>,
      x_mock_retrieve = None\<rparr>"

definition payments_get :: operation where
  "payments_get =
     \<lparr>responses = Some [(''200'', \<lparr>content = Some [(''application/json'',
                          \<lparr>example = Undefined, schema = payment_schema\<rparr>)]\<rparr>),
                        (''404'', \<lparr>content = None\<rparr>)],
      x_mock_store = None,
      x_mock_retrieve = Some \<lparr>param = Some ''reference''\<rparr>\<rparr>"

definition payment :: jsval where
  "payment = JObj [(''amount'', JNum 100), (''currency'', JStr ''USD'')]"




definition get_req :: "string \<Rightarrow> request" where
  "get_req r =
     \<lparr>x_mock_response = None, params = [(''reference'', r)], req_body = BodyObj []\<rparr>"


text \<open>The retrieving operation with the store extension added to it.\<close>

definition payments_both :: operation where
  "payments_both = payments_get\<lparr>x_mock_store := Some \<lparr>referenceField = Some ''reference''\<rparr>\<rparr>"


definition static_sample :: static_table where
  "static_sample =
     [(''/payments'', [(''POST'', \<lparr>status = JNum 202, body = JObj [(''status'', JStr ''queued'')]\<rparr>)]),
      (''/payments/{reference}'',
         [(''GET'', \<lparr>status = JNum 200, body = JObj [(''status'', JStr ''settled'')]\<rparr>)])]"

definition payments_summary :: operation where
  "payments_summary =
     \<lparr>responses = Some [(''200'', \<lparr>content = Some [(''application/json'',
                          \<lparr>example = JObj [(''count'', JNum 2)], schema = Undefined\<rparr>)]\<rparr>)],
      x_mock_store = None,
      x_mock_retrieve = None\<rparr>"

definition both_contract :: "(string \<times> (string \<times> operation) list) list" where
  "both_contract = [(''/payments/{reference}'', [(''get'', payments_both)])]"

definition summary_contract :: "(string \<times> (string \<times> operation) list) list" where
  "summary_contract =
     [(''/payments/{reference}'', [(''get'', payments_get)]),
      (''/payments/summary'', [(''get'', payments_summary)])]"

definition summary_first_contract :: "(string \<times> (string \<times> operation) list) list" where
  "summary_first_contract =
     [(''/payments'', [(''post'', payments_post)]),
      (''/payments/summary'', [(''get'', payments_summary)]),
      (''/payments/{reference}'', [(''get'', payments_get)])]"



definition counter_get :: operation where
  "counter_get =
     \<lparr>responses = Some [(''200'', \<lparr>content = Some [(''application/json'',
                          \<lparr>example = JNum 0, schema = JObj [(''type'', JStr ''integer'')]\<rparr>)]\<rparr>)],
      x_mock_store = None,
      x_mock_retrieve = None\<rparr>"

section \<open>Evaluation lemmas\<close>

lemma upper_get: "toUpperCase ''get'' = ''GET''"
  by (simp add: toUpperCase_def upper_char_def)


lemma lower_get: "toLowerCase ''get'' = ''get''"
  by (simp add: toLowerCase_def lower_char_def)

lemma lower_post: "toLowerCase ''post'' = ''post''"
  by (simp add: toLowerCase_def lower_char_def)

lemma lower_GET: "toLowerCase ''GET'' = ''get''"
  by (simp add: toLowerCase_def lower_char_def)

lemma parseInt_200: "parseInt ''200'' = JNum 200"
  by (simp add: parseInt_def parse_digits_def digit_of_def is_space_def)



text \<open>Assigning the reference member twice leaves what the second assignment alone gives.\<close>

lemma obj_set_again: "obj_set k v (obj_set k w kvs) = obj_set k v kvs"
  by (induction kvs) auto

lemma set_reference_again:
  "set_reference (set_reference b k r') k r = set_reference b k r"
  by (cases b) (simp_all add: obj_set_again)

section \<open>The retrieval branch\<close>



text \<open>
  C2, as the code has it. The handler tests \<^verbatim>\<open>x-mock-retrieve\<close> before it calls
  \<^verbatim>\<open>generateResponse\<close>, so for a retrieving operation the retrieval decides the response
  and the override file is never read: the result is the same for every override table, and
  it is 200 with the stored value or 404 with \<^verbatim>\<open>{error: 'Not found'}\<close>.
\<close>

theorem retrieve_ignores_static:
  assumes "x_mock_retrieve operation = Some retrieve"
  shows "handler jsf path method operation staticResponses uuid req dataStore
           = handler jsf path method operation staticResponses' uuid req dataStore
         \<and> handler jsf path method operation staticResponses uuid req dataStore
           = (if truthy (dataStore_get dataStore (params_get (params req) (param retrieve)))
              then \<lparr>status = JNum 200,
                    body = dataStore_get dataStore (params_get (params req) (param retrieve))\<rparr>
              else \<lparr>status = JNum 404, body = not_found\<rparr>,
              dataStore)"
  using assms by (simp add: handler_def Let_def)

theorem retrieve_ignores_static_witness:
  "x_mock_retrieve payments_get = Some \<lparr>param = Some ''reference''\<rparr>
   \<and> handler sample_jsf ''/payments/{reference}'' ''get'' payments_get static_sample ''u2''
        (get_req ''u1'') (empty_store(''u1'' \<mapsto> payment))
      = handler sample_jsf ''/payments/{reference}'' ''get'' payments_get [] ''u2''
        (get_req ''u1'') (empty_store(''u1'' \<mapsto> payment))
   \<and> handler sample_jsf ''/payments/{reference}'' ''get'' payments_get static_sample ''u2''
        (get_req ''u1'') (empty_store(''u1'' \<mapsto> payment))
      = (\<lparr>status = JNum 200, body = payment\<rparr>, empty_store(''u1'' \<mapsto> payment))"
proof -
  have p: "x_mock_retrieve payments_get = Some \<lparr>param = Some ''reference''\<rparr>"
    by (simp add: payments_get_def)
  have v: "dataStore_get (empty_store(''u1'' \<mapsto> payment))
             (params_get (params (get_req ''u1'')) (param \<lparr>param = Some ''reference''\<rparr>))
           = payment"
    by (simp add: get_req_def params_get_def dataStore_get_def)
  have t: "truthy payment"
    by (simp add: payment_def)
  note r = retrieve_ignores_static [OF p, where jsf = sample_jsf
        and path = "''/payments/{reference}''" and uuid = "''u2''"
        and staticResponses = static_sample and staticResponses' = "[]"
        and dataStore = "empty_store(''u1'' \<mapsto> payment)" and req = "get_req ''u1''",
        of "''get''"]
  from r have a: "handler sample_jsf ''/payments/{reference}'' ''get'' payments_get static_sample
        ''u2'' (get_req ''u1'') (empty_store(''u1'' \<mapsto> payment))
      = handler sample_jsf ''/payments/{reference}'' ''get'' payments_get [] ''u2''
        (get_req ''u1'') (empty_store(''u1'' \<mapsto> payment))"
    by (rule conjunct1)
  from conjunct2 [OF r]
  have b: "handler sample_jsf ''/payments/{reference}'' ''get'' payments_get static_sample
        ''u2'' (get_req ''u1'') (empty_store(''u1'' \<mapsto> payment))
      = (\<lparr>status = JNum 200, body = payment\<rparr>, empty_store(''u1'' \<mapsto> payment))"
    by (simp only: v t if_True)
  show ?thesis by (intro conjI p a b)
qed

text \<open>
  The override does not win over the retrieval: \<^verbatim>\<open>GET /payments/{reference}\<close> has an
  entry in the override file, and a request for an unknown reference is answered by the
  retrieval branch with 404, not with the entry.
\<close>

theorem retrieve_ignores_static_counterexample:
  "x_mock_retrieve payments_get = Some \<lparr>param = Some ''reference''\<rparr>
   \<and> static_lookup static_sample ''/payments/{reference}'' (toUpperCase ''get'')
       = Some \<lparr>status = JNum 200, body = JObj [(''status'', JStr ''settled'')]\<rparr>
   \<and> fst (handler sample_jsf ''/payments/{reference}'' ''get'' payments_get static_sample ''u2''
            (get_req ''u1'') empty_store)
       = \<lparr>status = JNum 404, body = JObj [(''error'', JStr ''Not found'')]\<rparr>"
  by (simp add: payments_get_def static_lookup_def static_sample_def upper_get handler_def
      get_req_def params_get_def dataStore_get_def empty_store_def not_found_def)

section \<open>The static override\<close>




section \<open>The status and the body that generateResponse selects\<close>








text \<open>
  C8 at an example that is falsy. The response declared under 200 has the example \<open>0\<close>
  and a schema: the body of the response is what the generator makes of the schema, not the
  example. With the example \<^verbatim>\<open>false\<close> and no schema the body is the empty object.
  \<^verbatim>\<open>generateResponse\<close> tests \<^verbatim>\<open>if (content?.example)\<close>, under the comment
  \<^verbatim>\<open>Use example if available\<close>.
\<close>

theorem falsy_example_skipped:
  "responses counter_get =
     Some [(''200'', \<lparr>content = Some [(''application/json'',
              \<lparr>example = JNum 0, schema = JObj [(''type'', JStr ''integer'')]\<rparr>)]\<rparr>)]
   \<and> handler sample_jsf ''/counter'' ''get'' counter_get [] ''u1'' (get_req ''x'') empty_store
       = (\<lparr>status = JNum 200, body = sample_jsf (JObj [(''type'', JStr ''integer'')])\<rparr>,
          empty_store)
   \<and> generateResponse sample_jsf ''/counter'' ''get''
        \<lparr>responses = Some [(''200'', \<lparr>content = Some [(''application/json'',
              \<lparr>example = JBool False, schema = Undefined\<rparr>)]\<rparr>)],
         x_mock_store = None, x_mock_retrieve = None\<rparr> [] ''200''
       = \<lparr>status = JNum 200, body = JObj []\<rparr>"
  by (simp add: handler_def generateResponse_def counter_get_def get_req_def
      static_lookup_def js_in_def responses_get_def parseInt_200)

text \<open>
  What the same branch does with a truthy example: it is the body, whatever the schema is.
\<close>

lemma truthy_example_returned:
  assumes "static_lookup staticResponses path (toUpperCase method) = None"
    and "responses operation = Some rs"
    and "map_of rs st = Some \<lparr>content = Some ms\<rparr>"
    and "map_of ms ''application/json'' = Some m"
    and "truthy (example m)"
    and "js_in requestedStatus rs \<and> st = requestedStatus
         \<or> \<not> js_in requestedStatus rs \<and> st = ''200''"
  shows "generateResponse jsf path method operation staticResponses requestedStatus
           = \<lparr>status = parseInt st, body = example m\<rparr>"
  using assms by (auto simp: generateResponse_def responses_get_def Let_def)

section \<open>The data store\<close>
















section \<open>Request bodies in front of the store branch\<close>






section \<open>The routes\<close>

lemma register_methods_routable:
  "list_all (\<lambda>entry. toLowerCase (fst entry) \<in> set app_routing_methods) ms \<Longrightarrow>
   register_methods path ms app = Inr (app @ map (route_of path) ms)"
  by (induction ms arbitrary: app) (auto simp: route_of_def)

lemma register_methods_unroutable:
  "\<not> list_all (\<lambda>entry. toLowerCase (fst entry) \<in> set app_routing_methods) ms \<Longrightarrow>
   isl (register_methods path ms app)"
  by (induction ms arbitrary: app) auto

lemma register_paths_routable:
  "routable paths \<Longrightarrow> register_paths paths app = Inr (app @ routes_of paths)"
proof (induction paths arbitrary: app)
  case Nil
  then show ?case by (simp add: routes_of_def)
next
  case (Cons item paths)
  obtain path ms where item: "item = (path, ms)" by (cases item)
  from Cons.prems have ms: "list_all (\<lambda>entry. toLowerCase (fst entry) \<in> set app_routing_methods) ms"
    and rest: "routable paths"
    by (simp_all add: routable_def item)
  have "register_paths (item # paths) app = register_paths paths (app @ map (route_of path) ms)"
    by (simp add: item register_methods_routable [OF ms])
  also have "\<dots> = Inr ((app @ map (route_of path) ms) @ routes_of paths)"
    using rest by (rule Cons.IH)
  finally show ?case by (simp add: routes_of_def item)
qed

lemma register_paths_unroutable:
  "\<not> routable paths \<Longrightarrow> isl (register_paths paths app)"
proof (induction paths arbitrary: app)
  case Nil
  then show ?case by (simp add: routable_def)
next
  case (Cons item paths)
  obtain path ms where item: "item = (path, ms)" by (cases item)
  show ?case
  proof (cases "list_all (\<lambda>entry. toLowerCase (fst entry) \<in> set app_routing_methods) ms")
    case True
    with Cons.prems have "\<not> routable paths" by (simp add: routable_def item)
    then show ?thesis
      by (simp add: item register_methods_routable [OF True] Cons.IH)
  next
    case False
    then have "isl (register_methods path ms app)" by (rule register_methods_unroutable)
    then show ?thesis by (auto simp: item split: sum.splits)
  qed
qed

text \<open>
  C5, as the code has it. The registration loop never reads the extensions. When every key of
  every path item names a routing function of the application, \<^verbatim>\<open>startServer\<close> registers
  one route per operation, in the order of the contract, whatever extensions the operations
  carry, also both; otherwise it fails, with the TypeError of calling \<^verbatim>\<open>app[key]\<close>.
\<close>

theorem build_ignores_annotations:
  "(routable paths \<longrightarrow> build_routes paths = Inr (routes_of paths))
   \<and> (\<not> routable paths \<longrightarrow> isl (build_routes paths))"
  using register_paths_routable [of paths "[]"] register_paths_unroutable [of paths "[]"]
  by (simp add: build_routes_def)

theorem build_ignores_annotations_witness:
  "routable both_contract
   \<and> x_mock_store payments_both \<noteq> None \<and> x_mock_retrieve payments_both \<noteq> None
   \<and> build_routes both_contract
       = Inr [\<lparr>route_verb = ''get'', route_path = ''/payments/:reference'',
                handler_path = ''/payments/{reference}'', handler_method = ''get'',
                handler_operation = payments_both\<rparr>]
   \<and> \<not> routable [(''/payments'', [(''parameters'', payments_post)])]
   \<and> isl (build_routes [(''/payments'', [(''parameters'', payments_post)])])"
proof -
  have r: "routable both_contract"
    by (simp add: routable_def both_contract_def lower_get app_routing_methods_def)
  have a: "x_mock_store payments_both \<noteq> None \<and> x_mock_retrieve payments_both \<noteq> None"
    by (simp add: payments_both_def payments_get_def)
  have v: "routes_of both_contract
       = [\<lparr>route_verb = ''get'', route_path = ''/payments/:reference'',
                handler_path = ''/payments/{reference}'', handler_method = ''get'',
                handler_operation = payments_both\<rparr>]"
    by (simp add: routes_of_def both_contract_def route_of_def lower_get)
  have n: "\<not> routable [(''/payments'', [(''parameters'', payments_post)])]"
    by (simp add: routable_def toLowerCase_def lower_char_def app_routing_methods_def)
  have b: "build_routes both_contract
       = Inr [\<lparr>route_verb = ''get'', route_path = ''/payments/:reference'',
                handler_path = ''/payments/{reference}'', handler_method = ''get'',
                handler_operation = payments_both\<rparr>]"
    using conjunct1 [OF build_ignores_annotations [of both_contract]] r by (simp only: v)
  have c: "isl (build_routes [(''/payments'', [(''parameters'', payments_post)])])"
    using conjunct2 [OF build_ignores_annotations
        [of "[(''/payments'', [(''parameters'', payments_post)])]"]] n
    by blast
  show ?thesis using r a b n c by blast
qed

text \<open>
  A contract whose one operation carries both extensions is not refused: its route is
  registered.
\<close>

theorem build_rejects_both_counterexample:
  "x_mock_store payments_both = Some \<lparr>referenceField = Some ''reference''\<rparr>
   \<and> x_mock_retrieve payments_both = Some \<lparr>param = Some ''reference''\<rparr>
   \<and> build_routes [(''/payments/{reference}'', [(''get'', payments_both)])]
       = Inr [\<lparr>route_verb = ''get'', route_path = ''/payments/:reference'',
                handler_path = ''/payments/{reference}'', handler_method = ''get'',
                handler_operation = payments_both\<rparr>]"
  by (simp add: build_routes_def lower_get app_routing_methods_def payments_both_def
      payments_get_def)

lemma find_first:
  assumes "i < length xs" and "P (xs ! i)" and "\<forall>k<i. \<not> P (xs ! k)"
  shows "find P xs = Some (xs ! i)"
  using assms by (auto simp: find_Some_iff)

lemma summary_routes:
  "build_routes summary_contract
     = Inr [\<lparr>route_verb = ''get'', route_path = ''/payments/:reference'',
              handler_path = ''/payments/{reference}'', handler_method = ''get'',
              handler_operation = payments_get\<rparr>,
            \<lparr>route_verb = ''get'', route_path = ''/payments/summary'',
              handler_path = ''/payments/summary'', handler_method = ''get'',
              handler_operation = payments_summary\<rparr>]"
  by (simp add: build_routes_def summary_contract_def lower_get app_routing_methods_def)

lemma summary_first_routes:
  "build_routes summary_first_contract
     = Inr [\<lparr>route_verb = ''post'', route_path = ''/payments'',
              handler_path = ''/payments'', handler_method = ''post'',
              handler_operation = payments_post\<rparr>,
            \<lparr>route_verb = ''get'', route_path = ''/payments/summary'',
              handler_path = ''/payments/summary'', handler_method = ''get'',
              handler_operation = payments_summary\<rparr>,
            \<lparr>route_verb = ''get'', route_path = ''/payments/:reference'',
              handler_path = ''/payments/{reference}'', handler_method = ''get'',
              handler_operation = payments_get\<rparr>]"
  by (simp add: build_routes_def summary_first_contract_def lower_get lower_post
      app_routing_methods_def)

text \<open>
  C6, as the code has it. The routes are registered in the order of the contract
  (\<open>routes_of\<close>), and a request is served by the first registered route of its method
  whose route string matches the path, for any matching test of the router: of a literal
  route and a parameterized route that both match, the one declared first in the contract is
  selected.
\<close>

theorem first_registered_route_selected:
  assumes "build_routes paths = Inr app"
    and "i < length app"
    and "route_verb (app ! i) = toLowerCase m"
    and "matches (route_path (app ! i)) p"
    and "\<forall>k<i. \<not> (route_verb (app ! k) = toLowerCase m \<and> matches (route_path (app ! k)) p)"
  shows "app = routes_of paths \<and> dispatch matches app m p = Some (app ! i)"
proof -
  have "routable paths"
  proof (rule ccontr)
    assume "\<not> routable paths"
    then have "isl (register_paths paths [])" by (rule register_paths_unroutable)
    with assms(1) show False by (simp add: build_routes_def)
  qed
  then have "register_paths paths [] = Inr ([] @ routes_of paths)"
    by (rule register_paths_routable)
  with assms(1) have a: "app = routes_of paths" by (simp add: build_routes_def)
  have "find (\<lambda>r. route_verb r = toLowerCase m \<and> matches (route_path r) p) app
          = Some (app ! i)"
    using assms(2) _ assms(5)
  proof (rule find_first)
    show "route_verb (app ! i) = toLowerCase m \<and> matches (route_path (app ! i)) p"
      using assms(3,4) by simp
  qed
  with a show ?thesis by (simp add: dispatch_def)
qed

theorem first_registered_route_selected_witness:
  "build_routes summary_first_contract = Inr (routes_of summary_first_contract)
   \<and> map_option handler_path
        (dispatch route_matches (routes_of summary_first_contract) ''GET'' ''/payments/summary'')
       = Some ''/payments/summary''
   \<and> build_routes summary_contract = Inr (routes_of summary_contract)
   \<and> map_option handler_path
        (dispatch route_matches (routes_of summary_contract) ''GET'' ''/payments/summary'')
       = Some ''/payments/{reference}''"
proof -
  let ?post = "\<lparr>route_verb = ''post'', route_path = ''/payments'',
              handler_path = ''/payments'', handler_method = ''post'',
              handler_operation = payments_post\<rparr>"
  let ?summary = "\<lparr>route_verb = ''get'', route_path = ''/payments/summary'',
              handler_path = ''/payments/summary'', handler_method = ''get'',
              handler_operation = payments_summary\<rparr>"
  let ?get = "\<lparr>route_verb = ''get'', route_path = ''/payments/:reference'',
              handler_path = ''/payments/{reference}'', handler_method = ''get'',
              handler_operation = payments_get\<rparr>"
  have m: "route_matches ''/payments/summary'' ''/payments/summary''"
    "route_matches ''/payments/:reference'' ''/payments/summary''"
    by (simp_all add: route_matches_def segment_matches_def)
  have a: "[?post, ?summary, ?get] = routes_of summary_first_contract
           \<and> dispatch route_matches [?post, ?summary, ?get] ''GET'' ''/payments/summary''
               = Some ([?post, ?summary, ?get] ! 1)"
  proof (rule first_registered_route_selected)
    show "build_routes summary_first_contract = Inr [?post, ?summary, ?get]"
      by (rule summary_first_routes)
    show "1 < length [?post, ?summary, ?get]" by simp
    show "route_verb ([?post, ?summary, ?get] ! 1) = toLowerCase ''GET''"
      by (simp add: lower_GET)
    show "route_matches (route_path ([?post, ?summary, ?get] ! 1)) ''/payments/summary''"
      by (simp add: m)
    show "\<forall>k<1. \<not> (route_verb ([?post, ?summary, ?get] ! k) = toLowerCase ''GET''
                     \<and> route_matches (route_path ([?post, ?summary, ?get] ! k))
                          ''/payments/summary'')"
      by (simp add: lower_GET)
  qed
  have b: "[?get, ?summary] = routes_of summary_contract
           \<and> dispatch route_matches [?get, ?summary] ''GET'' ''/payments/summary''
               = Some ([?get, ?summary] ! 0)"
  proof (rule first_registered_route_selected)
    show "build_routes summary_contract = Inr [?get, ?summary]"
      by (rule summary_routes)
    show "0 < length [?get, ?summary]" by simp
    show "route_verb ([?get, ?summary] ! 0) = toLowerCase ''GET''"
      by (simp add: lower_GET)
    show "route_matches (route_path ([?get, ?summary] ! 0)) ''/payments/summary''"
      by (simp add: m)
    show "\<forall>k<0. \<not> (route_verb ([?get, ?summary] ! k) = toLowerCase ''GET''
                     \<and> route_matches (route_path ([?get, ?summary] ! k))
                          ''/payments/summary'')"
      by simp
  qed
  have a1: "routes_of summary_first_contract = [?post, ?summary, ?get]"
    using conjunct1 [OF a] by (rule sym)
  have a2: "dispatch route_matches [?post, ?summary, ?get] ''GET'' ''/payments/summary''
              = Some ?summary"
    using conjunct2 [OF a] by simp
  have b1: "routes_of summary_contract = [?get, ?summary]"
    using conjunct1 [OF b] by (rule sym)
  have b2: "dispatch route_matches [?get, ?summary] ''GET'' ''/payments/summary'' = Some ?get"
    using conjunct2 [OF b] by simp
  show ?thesis
    by (simp add: a1 a2 b1 b2 summary_first_routes summary_routes)
qed

text \<open>
  The literal route is not preferred: the contract declares \<^verbatim>\<open>/payments/{reference}\<close>
  before \<^verbatim>\<open>/payments/summary\<close>, both route strings match the path
  \<^verbatim>\<open>/payments/summary\<close> (by the router's test for literal and \<^verbatim>\<open>:name\<close> segments), and
  \<^verbatim>\<open>GET /payments/summary\<close> is served by the handler of \<^verbatim>\<open>/payments/{reference}\<close>.
\<close>

theorem literal_route_preferred_counterexample:
  "route_matches (express_path ''/payments/summary'') ''/payments/summary''
   \<and> route_matches (express_path ''/payments/{reference}'') ''/payments/summary''
   \<and> map_option handler_path
        (case build_routes summary_contract of
           Inr app \<Rightarrow> dispatch route_matches app ''GET'' ''/payments/summary''
         | Inl e \<Rightarrow> None)
       = Some ''/payments/{reference}''"
  by (simp add: summary_routes dispatch_def lower_GET route_matches_def segment_matches_def)

end
